theory Spec2Isabelle
  imports Complex_Main "HOL-Library.Log_Nat"
begin

section \<open>Strings\<close>

text \<open>
  Python strings are modelled as HOL strings over the ASCII range.  \<open>str.upper\<close> and
  \<open>str.lower\<close> map the 26 letters and leave every other character alone.  Python floats
  are modelled as rationals.  The thresholds and weights of the scorers are computed exactly;
  the reference-similarity scorer, whose comparisons turn on the rounding of a difference of
  two floats, rounds every float operation to binary64 with \<open>fl\<close> below.
\<close>

definition upper_char :: "char \<Rightarrow> char" where
  "upper_char c =
     (case map_of (zip ''abcdefghijklmnopqrstuvwxyz'' ''ABCDEFGHIJKLMNOPQRSTUVWXYZ'') c of
        None \<Rightarrow> c | Some u \<Rightarrow> u)"

definition lower_char :: "char \<Rightarrow> char" where
  "lower_char c =
     (case map_of (zip ''ABCDEFGHIJKLMNOPQRSTUVWXYZ'' ''abcdefghijklmnopqrstuvwxyz'') c of
        None \<Rightarrow> c | Some l \<Rightarrow> l)"

definition upper :: "string \<Rightarrow> string" where
  "upper s = map upper_char s"

definition lower :: "string \<Rightarrow> string" where
  "lower s = map lower_char s"

section \<open>Binary floating point\<close>

text \<open>
  \<open>fl x\<close> is the binary64 number nearest to \<open>x\<close>, a tie going to the even significand
  (overflow and subnormal numbers are left out).  \<open>binary_exponent x\<close> is the \<open>e\<close> with
  \<open>2 ^ e \<le> |x| < 2 ^ (e + 1)\<close>.
\<close>

definition binary_exponent :: "rat \<Rightarrow> int" where
  "binary_exponent x =
     (let (p, q) = quotient_of \<bar>x\<bar>;
          c = int (floorlog 2 (nat p)) - int (floorlog 2 (nat q))
      in if 2 powi c \<le> \<bar>x\<bar> then c else c - 1)"

definition round_half_even :: "rat \<Rightarrow> int" where
  "round_half_even y =
     (let f = \<lfloor>y\<rfloor>; d = y - of_int f
      in if d < 1/2 then f else if d > 1/2 then f + 1 else if even f then f else f + 1)"

definition fl :: "rat \<Rightarrow> rat" where
  "fl x =
     (if x = 0 then 0
      else (let ulp = 2 powi (binary_exponent x - 52)
            in of_int (round_half_even (x / ulp)) * ulp))"

section \<open>Data model of the scoring engine (models.py)\<close>

record UserIntent =
  budget_min :: "int option"
  budget_max :: "int option"
  performance_priority :: rat
  reliability_priority :: rat
  comfort_priority :: rat
  intent_drivetrain :: "string option"
  body_style :: "string option"
  intent_emotional_tags :: "string list"
  negative_tags :: "string list"
  reference_car :: "string option"
  usage :: "string list"
  raw_query :: string

record Car =
  car_id :: string
  car_make :: string
  model :: string
  year :: int
  trim :: string
  price_range :: "int \<times> int"
  avg_price :: int
  power_hp :: int
  torque_lb_ft :: int
  drivetrain :: string
  body_type :: string
  reliability_score :: rat
  ownership_cost_score :: rat
  driving_feel_tags :: "string list"
  class_tags :: "string list"
  emotional_tags :: "string list"
  fuel_economy_mpg :: int
  zero_to_sixty :: rat

text \<open>
  The reason and tradeoff texts are f-strings; each template is a constructor that carries
  the values the template interpolates.
\<close>

datatype message =
    WellUnderBudget int
  | FitsBudgetNicely int
  | SlightlyOverBudget int
  | AboveBudget int
  | SignificantlyOverBudget int
  | SeriouslyQuick rat
  | NotTheQuickest rat
  | PlentyOfPower int
  | ExcellentReliabilityRecord
  | GoodReliabilityReputation
  | ReliabilityConcern rat
  | KnownForBeingDependable
  | DrivetrainAsRequested string
  | OnlyAvailableIn string
  | DrivetrainInsteadOf string string
  | MatchesYourVibe "string list"
  | MayFeel string
  | DefinitelyNot string
  | VerySimilarTo string string
  | ComparableTo string string

datatype error = ZeroDivisionError

section \<open>Factor scorers (scoring\_engine.py)\<close>

definition score_price :: "Car \<Rightarrow> UserIntent \<Rightarrow> rat \<times> message option \<times> message option" where
  "score_price car intent =
     (case budget_max intent of
        None \<Rightarrow> (80, None, None)
      | Some budget \<Rightarrow>
          if budget = 0 then (80, None, None)
          else if avg_price car \<le> budget then
            (let headroom = (of_int (budget - avg_price car) :: rat) / of_int budget
             in if headroom > 0.2 then (100, Some (WellUnderBudget (avg_price car)), None)
                else (95, Some (FitsBudgetNicely budget), None))
          else
            (let over_percent = (of_int (avg_price car - budget) :: rat) / of_int budget
             in if over_percent < 0.1 then (75, None, Some (SlightlyOverBudget (avg_price car)))
                else if over_percent < 0.2 then (50, None, Some (AboveBudget (avg_price car)))
                else (20, None, Some (SignificantlyOverBudget (avg_price car)))))"

datatype perf_tier = excellent | great | good | decent | moderate

definition perf_tier_of :: "rat \<Rightarrow> perf_tier \<times> rat" where
  "perf_tier_of zero_sixty =
     (if zero_sixty \<le> 4.5 then (excellent, 100)
      else if zero_sixty \<le> 5.0 then (great, 85)
      else if zero_sixty \<le> 5.5 then (good, 70)
      else if zero_sixty \<le> 6.0 then (decent, 55)
      else (moderate, 40))"

definition score_performance :: "Car \<Rightarrow> UserIntent \<Rightarrow> rat \<times> message option \<times> message option" where
  "score_performance car intent =
     (let perf_priority = performance_priority intent;
          zero_sixty = zero_to_sixty car;
          (tier, base_score) = perf_tier_of zero_sixty
      in if perf_priority > 0.7 then
           (if tier = excellent \<or> tier = great
            then (base_score, Some (SeriouslyQuick zero_sixty), None)
            else (base_score, None, Some (NotTheQuickest zero_sixty)))
         else if perf_priority < 0.4 then (max base_score 70, None, None)
         else if tier = excellent \<or> tier = great
           then (base_score, Some (PlentyOfPower (power_hp car)), None)
           else (base_score, None, None))"

definition score_reliability :: "Car \<Rightarrow> UserIntent \<Rightarrow> rat \<times> message option \<times> message option" where
  "score_reliability car intent =
     (let rel_priority = reliability_priority intent;
          rel_score = reliability_score car;
          base_score = rel_score * 10
      in if rel_priority > 0.7 then
           (if rel_score \<ge> 8 then (base_score, Some ExcellentReliabilityRecord, None)
            else if rel_score \<ge> 7 then (base_score, Some GoodReliabilityReputation, None)
            else (base_score, None, Some (ReliabilityConcern rel_score)))
         else if rel_priority < 0.4 then (max base_score 60, None, None)
         else if rel_score \<ge> 8 then (base_score, Some KnownForBeingDependable, None)
         else (base_score, None, None))"

definition score_drivetrain :: "Car \<Rightarrow> UserIntent \<Rightarrow> rat \<times> message option \<times> message option" where
  "score_drivetrain car intent =
     (case intent_drivetrain intent of
        None \<Rightarrow> (80, None, None)
      | Some wanted \<Rightarrow>
          if wanted = [] then (80, None, None)
          else if upper (drivetrain car) = upper wanted
            then (100, Some (DrivetrainAsRequested (drivetrain car)), None)
          else if upper wanted = ''AWD'' \<and> upper (drivetrain car) \<noteq> ''AWD''
            then (40, None, Some (OnlyAvailableIn (drivetrain car)))
          else (60, None, Some (DrivetrainInsteadOf (drivetrain car) wanted)))"

definition similar_groups :: "string list list" where
  "similar_groups =
     [[''sedan'', ''liftback''],
      [''coupe'', ''convertible''],
      [''hatchback'', ''liftback'', ''hot-hatch''],
      [''suv'', ''crossover'']]"

definition score_body_style :: "Car \<Rightarrow> UserIntent \<Rightarrow> rat" where
  "score_body_style car intent =
     (case body_style intent of
        None \<Rightarrow> 80
      | Some pref \<Rightarrow>
          if pref = [] then 80
          else
            (let car_body = lower (body_type car); pref_body = lower pref
             in if car_body = pref_body then 100
                else if list_ex (\<lambda>group. car_body \<in> set group \<and> pref_body \<in> set group)
                          similar_groups
                  then 80
                else 50))"

subsection \<open>Emotional affinity\<close>

definition EMOTIONAL_SIMILARITIES :: "(string \<times> string list) list" where
  "EMOTIONAL_SIMILARITIES =
     [(''fun'', [''exciting'', ''sporty'', ''engaging'', ''playful'', ''thrilling'']),
      (''exciting'', [''fun'', ''aggressive'', ''powerful'', ''thrilling'', ''passionate'']),
      (''aggressive'', [''exciting'', ''powerful'', ''bold'', ''mean'']),
      (''sporty'', [''fun'', ''engaging'', ''athletic'', ''dynamic'']),
      (''luxurious'', [''sophisticated'', ''premium'', ''refined'', ''prestigious'', ''classy'']),
      (''sophisticated'', [''luxurious'', ''refined'', ''elegant'', ''classy'']),
      (''reliable'', [''dependable'', ''trustworthy'', ''sensible'']),
      (''practical'', [''sensible'', ''useful'', ''value'']),
      (''comfortable'', [''smooth'', ''refined'', ''relaxing'']),
      (''value'', [''practical'', ''sensible'', ''surprising'']),
      (''fast'', [''powerful'', ''quick'', ''exciting'']),
      (''unique'', [''special'', ''passionate'', ''distinctive''])]"

definition DRIVING_FEEL_TO_EMOTION :: "(string \<times> string list) list" where
  "DRIVING_FEEL_TO_EMOTION =
     [(''sporty'', [''fun'', ''exciting'', ''sporty'']),
      (''responsive'', [''fun'', ''engaging'', ''sporty'']),
      (''engaging'', [''fun'', ''exciting'', ''sporty'']),
      (''raw'', [''exciting'', ''passionate'', ''aggressive'']),
      (''sharp'', [''sporty'', ''engaging'', ''exciting'']),
      (''refined'', [''sophisticated'', ''luxurious'', ''comfortable'']),
      (''smooth'', [''comfortable'', ''luxurious'', ''refined'']),
      (''composed'', [''reliable'', ''sophisticated'', ''comfortable'']),
      (''powerful'', [''fast'', ''exciting'', ''aggressive'']),
      (''balanced'', [''practical'', ''reliable'', ''sporty'']),
      (''comfortable'', [''comfortable'', ''practical'', ''reliable'']),
      (''planted'', [''reliable'', ''sophisticated'', ''sporty'']),
      (''precise'', [''sporty'', ''engaging'', ''sophisticated'']),
      (''instant'', [''fast'', ''exciting'', ''modern'']),
      (''quiet'', [''comfortable'', ''luxurious'', ''refined'']),
      (''playful'', [''fun'', ''exciting'', ''sporty'']),
      (''direct'', [''engaging'', ''sporty'', ''raw''])]"

definition NEGATIVE_OPPOSITES :: "(string \<times> string list) list" where
  "NEGATIVE_OPPOSITES =
     [(''boring'', [''fun'', ''exciting'', ''engaging'', ''sporty'', ''aggressive'']),
      (''slow'', [''fast'', ''powerful'', ''exciting'']),
      (''unreliable'', [''reliable'', ''dependable'']),
      (''expensive'', [''value'', ''practical'']),
      (''uncomfortable'', [''comfortable'', ''luxurious'', ''refined'']),
      (''numb'', [''engaging'', ''raw'', ''sporty''])]"

text \<open>The loop over \<open>car.driving_feel_tags\<close> that extends the set \<open>car_emotions\<close>.\<close>

fun add_feel_emotions :: "string list \<Rightarrow> string set \<Rightarrow> string set" where
  "add_feel_emotions [] car_emotions = car_emotions"
| "add_feel_emotions (feel # feels) car_emotions =
     add_feel_emotions feels
       (case map_of DRIVING_FEEL_TO_EMOTION (lower feel) of
          None \<Rightarrow> car_emotions
        | Some emotions \<Rightarrow> car_emotions \<union> set emotions)"

text \<open>The loop over \<open>car.class_tags\<close>.\<close>

fun add_class_emotions :: "string list \<Rightarrow> string set \<Rightarrow> string set" where
  "add_class_emotions [] car_emotions = car_emotions"
| "add_class_emotions (class_tag # tags) car_emotions =
     add_class_emotions tags
       (let class_lower = lower class_tag
        in if class_lower = ''luxury''
             then car_emotions \<union> {''luxurious'', ''sophisticated'', ''premium''}
           else if class_lower = ''performance''
             then car_emotions \<union> {''exciting'', ''fast'', ''fun''}
           else if class_lower = ''sport''
             then car_emotions \<union> {''sporty'', ''fun'', ''engaging''}
           else car_emotions)"

definition build_profile :: "Car \<Rightarrow> string set" where
  "build_profile car =
     add_class_emotions (class_tags car)
       (add_feel_emotions (driving_feel_tags car) (set (map lower (emotional_tags car))))"

text \<open>
  The loop over \<open>intent.emotional_tags\<close>; the state is
  \<open>(positive_score, positive_matches)\<close>.
\<close>

fun wanted_loop :: "string set \<Rightarrow> string list \<Rightarrow> rat \<times> string list \<Rightarrow> rat \<times> string list" where
  "wanted_loop car_emotions [] st = st"
| "wanted_loop car_emotions (wanted_tag # rest) (positive_score, positive_matches) =
     (let wanted_lower = lower wanted_tag
      in if wanted_lower \<in> car_emotions
           then wanted_loop car_emotions rest (positive_score + 20, positive_matches @ [wanted_tag])
         else
           (case map_of EMOTIONAL_SIMILARITIES wanted_lower of
              None \<Rightarrow> wanted_loop car_emotions rest (positive_score, positive_matches)
            | Some similar \<Rightarrow>
                if car_emotions \<inter> set similar \<noteq> {}
                  then wanted_loop car_emotions rest
                         (positive_score + 12, positive_matches @ [wanted_tag])
                else wanted_loop car_emotions rest (positive_score, positive_matches)))"

text \<open>
  The loop over \<open>intent.negative_tags\<close>; the state is
  \<open>(negative_penalty, positive_score, reasons, tradeoffs)\<close>.
\<close>

fun avoid_loop ::
  "string set \<Rightarrow> string list \<Rightarrow> rat \<times> rat \<times> message list \<times> message list
     \<Rightarrow> rat \<times> rat \<times> message list \<times> message list" where
  "avoid_loop car_emotions [] st = st"
| "avoid_loop car_emotions (avoid_tag # rest) (negative_penalty, positive_score, reasons, tradeoffs) =
     (let avoid_lower = lower avoid_tag
      in if avoid_lower \<in> car_emotions
           then avoid_loop car_emotions rest
                  (negative_penalty + 25, positive_score, reasons, tradeoffs @ [MayFeel avoid_lower])
         else
           (case map_of NEGATIVE_OPPOSITES avoid_lower of
              None \<Rightarrow> avoid_loop car_emotions rest (negative_penalty, positive_score, reasons, tradeoffs)
            | Some opposites \<Rightarrow>
                if car_emotions \<inter> set opposites \<noteq> {}
                  then avoid_loop car_emotions rest
                         (negative_penalty, positive_score + 10,
                          reasons @ [DefinitelyNot avoid_lower], tradeoffs)
                else avoid_loop car_emotions rest
                       (negative_penalty, positive_score, reasons, tradeoffs)))"

definition score_emotional :: "Car \<Rightarrow> UserIntent \<Rightarrow> rat \<times> message list \<times> message list" where
  "score_emotional car intent =
     (let car_emotions = build_profile car;
          (positive_score, positive_matches) =
             wanted_loop car_emotions (intent_emotional_tags intent) (0, []);
          reasons = (if positive_matches \<noteq> [] then [MatchesYourVibe (take 3 positive_matches)] else []);
          (negative_penalty, positive_score', reasons', tradeoffs) =
             avoid_loop car_emotions (negative_tags intent) (0, positive_score, reasons, [])
      in if intent_emotional_tags intent = [] \<and> negative_tags intent = []
           then (70, reasons', tradeoffs)
         else
           (let final_score = 50 + min positive_score' 50 - min negative_penalty 40
            in (max 0 (min 100 final_score), reasons', tradeoffs)))"

subsection \<open>Reference similarity and ownership cost\<close>

text \<open>
  Both quotients divide by a field of the reference car; Python raises
  \<open>ZeroDivisionError\<close> when that field is zero.  The quotients of two integers, the
  difference of the two 0-60 times and the literals they are compared with are floats.
\<close>

definition score_reference_similarity :: "Car \<Rightarrow> Car \<Rightarrow> error + (rat \<times> message option)" where
  "score_reference_similarity car reference =
     (let score = (if drivetrain car = drivetrain reference then 15 else 0)
      in if power_hp reference = 0 then Inl ZeroDivisionError
         else
           (let power_diff = fl ((of_int \<bar>power_hp car - power_hp reference\<bar> :: rat)
                                   / of_int (power_hp reference));
                score = score + (if power_diff < fl 0.1 then 20
                                 else if power_diff < fl 0.2 then 12
                                 else if power_diff < fl 0.3 then 5 else 0);
                zero_diff = \<bar>fl (fl (zero_to_sixty car) - fl (zero_to_sixty reference))\<bar>;
                score = score + (if zero_diff < fl 0.3 then 15
                                 else if zero_diff < fl 0.6 then 10
                                 else if zero_diff < fl 1.0 then 5 else 0);
                score = score + (if body_type car = body_type reference then 15 else 0)
            in if avg_price reference = 0 then Inl ZeroDivisionError
               else
                 (let price_diff = fl ((of_int \<bar>avg_price car - avg_price reference\<bar> :: rat)
                                         / of_int (avg_price reference));
                      score = score + (if price_diff < fl 0.1 then 15
                                       else if price_diff < fl 0.2 then 10
                                       else if price_diff < fl 0.3 then 5 else 0);
                      common_classes = set (class_tags car) \<inter> set (class_tags reference);
                      score = score + of_nat (card common_classes) * 10;
                      common_emotions = set (emotional_tags car) \<inter> set (emotional_tags reference);
                      score = score + of_nat (card common_emotions) * 5;
                      final_score = min 100 score;
                      reason = (if final_score > 70
                                  then Some (VerySimilarTo (car_make reference) (model reference))
                                else if final_score > 50
                                  then Some (ComparableTo (car_make reference) (model reference))
                                else None)
                  in Inr (final_score, reason))))"

definition score_ownership_cost :: "Car \<Rightarrow> UserIntent \<Rightarrow> rat" where
  "score_ownership_cost car intent = ownership_cost_score car * 10"

section \<open>Weight allocation and aggregation\<close>

text \<open>
  A Python dict keeps its keys in insertion order without duplicates: an association list
  whose assignment replaces the value of a key that is present and appends a new key.
\<close>

type_synonym 'v dict = "(string \<times> 'v) list"

fun dict_set :: "string \<Rightarrow> 'v \<Rightarrow> 'v dict \<Rightarrow> 'v dict" where
  "dict_set k v [] = [(k, v)]"
| "dict_set k v ((k', v') # d) = (if k' = k then (k, v) # d else (k', v') # dict_set k v d)"

definition dict_get :: "'v dict \<Rightarrow> string \<Rightarrow> 'v \<Rightarrow> 'v" where
  "dict_get d k dflt = (case map_of d k of None \<Rightarrow> dflt | Some v \<Rightarrow> v)"

definition dict_keys :: "'v dict \<Rightarrow> string list" where
  "dict_keys d = map fst d"

definition base_weights :: "rat dict" where
  "base_weights =
     [(''price'', 0.20),
      (''performance'', 0.15),
      (''reliability'', 0.15),
      (''drivetrain'', 0.10),
      (''body_style'', 0.10),
      (''emotional'', 0.20),
      (''ownership'', 0.10)]"

text \<open>The weights after the reference step, before the priority overrides.\<close>

definition reference_weights :: "rat dict \<Rightarrow> bool \<Rightarrow> rat dict" where
  "reference_weights scores has_reference =
     (if has_reference \<and> ''reference'' \<in> set (dict_keys scores)
      then map (\<lambda>(key, w). if key \<noteq> ''reference'' then (key, w * 0.85) else (key, w))
             (dict_set ''reference'' 0.15 base_weights)
      else base_weights)"

definition allocate_weights :: "rat dict \<Rightarrow> UserIntent \<Rightarrow> bool \<Rightarrow> rat dict" where
  "allocate_weights scores intent has_reference =
     (let weights = reference_weights scores has_reference;
          weights = (if performance_priority intent > 0.7
                     then dict_set ''emotional'' 0.15 (dict_set ''performance'' 0.25 weights)
                     else weights);
          weights = (if reliability_priority intent > 0.7
                     then dict_set ''ownership'' 0.15 (dict_set ''reliability'' 0.22 weights)
                     else weights);
          weights = (case intent_drivetrain intent of
                       None \<Rightarrow> weights
                     | Some wanted \<Rightarrow>
                         if wanted = [] then weights else dict_set ''drivetrain'' 0.15 weights)
      in weights)"

definition total_weight_of :: "rat dict \<Rightarrow> rat dict \<Rightarrow> rat" where
  "total_weight_of scores weights = sum_list (map (\<lambda>k. dict_get weights k 0) (dict_keys scores))"

definition weighted_sum_of :: "rat dict \<Rightarrow> rat dict \<Rightarrow> rat" where
  "weighted_sum_of scores weights =
     sum_list (map (\<lambda>k. dict_get scores k 0 * dict_get weights k 0.1) (dict_keys scores))"

definition calculate_weighted_score :: "rat dict \<Rightarrow> UserIntent \<Rightarrow> bool \<Rightarrow> rat" where
  "calculate_weighted_score scores intent has_reference =
     (let weights = allocate_weights scores intent has_reference;
          total_weight = total_weight_of scores weights;
          weighted_sum = weighted_sum_of scores weights
      in if total_weight > 0 then (weighted_sum / total_weight) * total_weight else 50)"

section \<open>Scoring one car\<close>

definition opt_list :: "'a option \<Rightarrow> 'a list" where
  "opt_list x = (case x of None \<Rightarrow> [] | Some v \<Rightarrow> [v])"

text \<open>
  The reference factor of \<open>_score_car\<close>: present only when a reference car was resolved
  and the scored car has another id.
\<close>

definition reference_factor :: "Car \<Rightarrow> Car option \<Rightarrow> error + (rat \<times> message option) option" where
  "reference_factor car reference =
     (case reference of
        None \<Rightarrow> Inr None
      | Some r \<Rightarrow>
          if car_id car \<noteq> car_id r
          then (case score_reference_similarity car r of
                  Inl e \<Rightarrow> Inl e
                | Inr res \<Rightarrow> Inr (Some res))
          else Inr None)"

text \<open>The dict \<open>scores\<close> of \<open>_score_car\<close>, in insertion order.\<close>

definition factor_scores :: "Car \<Rightarrow> UserIntent \<Rightarrow> (rat \<times> message option) option \<Rightarrow> rat dict" where
  "factor_scores car intent ref_result =
     [(''price'', fst (score_price car intent)),
      (''performance'', fst (score_performance car intent)),
      (''reliability'', fst (score_reliability car intent)),
      (''drivetrain'', fst (score_drivetrain car intent)),
      (''body_style'', score_body_style car intent),
      (''emotional'', fst (score_emotional car intent))]
     @ (case ref_result of None \<Rightarrow> [] | Some (ref_score, ref_reason) \<Rightarrow> [(''reference'', ref_score)])
     @ [(''ownership'', score_ownership_cost car intent)]"

definition collect_reasons :: "Car \<Rightarrow> UserIntent \<Rightarrow> (rat \<times> message option) option \<Rightarrow> message list" where
  "collect_reasons car intent ref_result =
     opt_list (fst (snd (score_price car intent)))
     @ opt_list (fst (snd (score_performance car intent)))
     @ opt_list (fst (snd (score_reliability car intent)))
     @ opt_list (fst (snd (score_drivetrain car intent)))
     @ fst (snd (score_emotional car intent))
     @ (case ref_result of None \<Rightarrow> [] | Some (ref_score, ref_reason) \<Rightarrow> opt_list ref_reason)"

definition collect_tradeoffs :: "Car \<Rightarrow> UserIntent \<Rightarrow> message list" where
  "collect_tradeoffs car intent =
     opt_list (snd (snd (score_price car intent)))
     @ opt_list (snd (snd (score_performance car intent)))
     @ opt_list (snd (snd (score_reliability car intent)))
     @ opt_list (snd (snd (score_drivetrain car intent)))
     @ snd (snd (score_emotional car intent))"

definition score_car ::
  "Car \<Rightarrow> UserIntent \<Rightarrow> Car option \<Rightarrow> error + (rat \<times> message list \<times> message list)" where
  "score_car car intent reference =
     (case reference_factor car reference of
        Inl e \<Rightarrow> Inl e
      | Inr ref_result \<Rightarrow>
          (let scores = factor_scores car intent ref_result;
               final_score = calculate_weighted_score scores intent (reference \<noteq> None)
           in Inr (final_score,
                   take 4 (collect_reasons car intent ref_result),
                   take 3 (collect_tradeoffs car intent))))"

section \<open>Scoring the catalog (database.py, score\_all\_cars)\<close>

record CarListing =
  listing_car_id :: string
  listing_price :: int
  listing_mileage :: int
  listing_location :: string
  listing_condition :: string
  listing_source :: string
  listing_url :: string
  listing_title :: string

record CarDatabase =
  db_cars :: "Car list"
  db_listings :: "CarListing list"

record MatchResult =
  result_car :: Car
  match_score :: rat
  match_reasons :: "message list"
  result_tradeoffs :: "message list"
  result_listings :: "CarListing list"

text \<open>\<open>sub in s\<close> on strings.\<close>

fun startswith :: "string \<Rightarrow> string \<Rightarrow> bool" where
  "startswith s [] = True"
| "startswith [] (p # ps) = False"
| "startswith (c # cs) (p # ps) = (c = p \<and> startswith cs ps)"

fun contains :: "string \<Rightarrow> string \<Rightarrow> bool" where
  "contains [] sub = (sub = [])"
| "contains (c # cs) sub = (startswith (c # cs) sub \<or> contains cs sub)"

text \<open>\<open>str(n)\<close> of an integer: its decimal digits, with a minus sign when negative.\<close>

definition digit_char :: "nat \<Rightarrow> char" where
  "digit_char d = ''0123456789'' ! d"

fun str_nat :: "nat \<Rightarrow> string" where
  "str_nat n = (if n < 10 then [digit_char n] else str_nat (n div 10) @ [digit_char (n mod 10)])"

definition str_int :: "int \<Rightarrow> string" where
  "str_int i = (if i < 0 then CHR ''-'' # str_nat (nat (- i)) else str_nat (nat i))"

text \<open>The loop of \<open>find_reference_car\<close>; the state is \<open>(best_match, best_score)\<close>.\<close>

fun reference_loop ::
  "string \<Rightarrow> Car list \<Rightarrow> Car option \<times> nat \<Rightarrow> Car option \<times> nat" where
  "reference_loop reference [] st = st"
| "reference_loop reference (car # cars) (best_match, best_score) =
     (let reference_lower = lower reference;
          score = (if contains reference_lower (lower (car_make car)) then 3 else 0)
                + (if contains reference_lower (lower (model car)) then 3 else 0)
                + (if contains reference (str_int (year car)) then 2 else 0)
                + (if contains reference_lower (lower (trim car)) then 1 else 0)
      in if score > best_score then reference_loop reference cars (Some car, score)
         else reference_loop reference cars (best_match, best_score))"

definition find_reference_car :: "CarDatabase \<Rightarrow> string \<Rightarrow> Car option" where
  "find_reference_car db reference =
     (if reference = [] then None
      else
        (let (best_match, best_score) = reference_loop reference (db_cars db) (None, 0)
         in if best_score \<ge> 4 then best_match else None))"

definition get_listings_for_car :: "CarDatabase \<Rightarrow> string \<Rightarrow> CarListing list" where
  "get_listings_for_car db cid = filter (\<lambda>l. listing_car_id l = cid) (db_listings db)"

text \<open>
  The loop of \<open>score_all_cars\<close>; an exception in one car ends the whole pass.
  \<open>round(score, 1)\<close> rounds the binary float that the aggregate is in the code; the
  aggregate here is its exact value, so the rounding is the parameter \<open>round1\<close>.
\<close>

fun score_loop ::
  "(rat \<Rightarrow> rat) \<Rightarrow> CarDatabase \<Rightarrow> UserIntent \<Rightarrow> Car option \<Rightarrow> Car list \<Rightarrow> MatchResult list
     \<Rightarrow> error + MatchResult list" where
  "score_loop round1 db intent reference [] results = Inr results"
| "score_loop round1 db intent reference (car # cars) results =
     (case score_car car intent reference of
        Inl e \<Rightarrow> Inl e
      | Inr (score, reasons, tradeoffs) \<Rightarrow>
          score_loop round1 db intent reference cars
            (results @
             [\<lparr>result_car = car, match_score = round1 score, match_reasons = reasons,
               result_tradeoffs = tradeoffs,
               result_listings = get_listings_for_car db (car_id car)\<rparr>]))"

definition score_all_cars ::
  "(rat \<Rightarrow> rat) \<Rightarrow> CarDatabase \<Rightarrow> UserIntent \<Rightarrow> error + MatchResult list" where
  "score_all_cars round1 db intent =
     (let reference =
            (case reference_car intent of
               None \<Rightarrow> None
             | Some descriptor \<Rightarrow>
                 if descriptor = [] then None else find_reference_car db descriptor)
      in case score_loop round1 db intent reference (db_cars db) [] of
           Inl e \<Rightarrow> Inl e
         | Inr results \<Rightarrow> Inr (sort_key (\<lambda>r. - match_score r) results))"

section \<open>The emotional score in closed form\<close>










section \<open>The weighted average of the specification\<close>

text \<open>
  The weighted average over the factors present: the weighted sum divided by the total
  weight of the keys present.
\<close>

definition weighted_average :: "rat dict \<Rightarrow> rat dict \<Rightarrow> rat" where
  "weighted_average scores weights =
     sum_list (map (\<lambda>k. dict_get scores k 0 * dict_get weights k 0) (dict_keys scores))
       / sum_list (map (\<lambda>k. dict_get weights k 0) (dict_keys scores))"

text \<open>The points that \<open>score_reference_similarity\<close> adds up, as one sum.\<close>

definition reference_points :: "Car \<Rightarrow> Car \<Rightarrow> rat" where
  "reference_points car reference =
     (let power_diff = fl ((of_int \<bar>power_hp car - power_hp reference\<bar> :: rat)
                             / of_int (power_hp reference));
          zero_diff = \<bar>fl (fl (zero_to_sixty car) - fl (zero_to_sixty reference))\<bar>;
          price_diff = fl ((of_int \<bar>avg_price car - avg_price reference\<bar> :: rat)
                             / of_int (avg_price reference))
      in (if drivetrain car = drivetrain reference then 15 else 0)
         + (if power_diff < fl 0.1 then 20 else if power_diff < fl 0.2 then 12
            else if power_diff < fl 0.3 then 5 else 0)
         + (if zero_diff < fl 0.3 then 15 else if zero_diff < fl 0.6 then 10
            else if zero_diff < fl 1.0 then 5 else 0)
         + (if body_type car = body_type reference then 15 else 0)
         + (if price_diff < fl 0.1 then 15 else if price_diff < fl 0.2 then 10
            else if price_diff < fl 0.3 then 5 else 0)
         + of_nat (card (set (class_tags car) \<inter> set (class_tags reference))) * 10
         + of_nat (card (set (emotional_tags car) \<inter> set (emotional_tags reference))) * 5)"

section \<open>The weights after the priority overrides\<close>


section \<open>Concrete inputs\<close>

definition default_intent :: UserIntent where
  "default_intent =
     \<lparr>budget_min = None, budget_max = None,
      performance_priority = 0.5, reliability_priority = 0.5, comfort_priority = 0.5,
      intent_drivetrain = None, body_style = None,
      intent_emotional_tags = [], negative_tags = [],
      reference_car = None, usage = [], raw_query = []\<rparr>"

definition demanding_intent :: UserIntent where
  "demanding_intent =
     default_intent\<lparr>budget_max := Some 40000, performance_priority := 0.9,
                    reliability_priority := 0.9, intent_drivetrain := Some ''AWD''\<rparr>"

definition quick_awd_car :: Car where
  "quick_awd_car =
     \<lparr>car_id = ''audi-rs3-2020'', car_make = ''Audi'', model = ''RS3'', year = 2020,
      trim = ''Base'', price_range = (28000, 32000), avg_price = 30000,
      power_hp = 394, torque_lb_ft = 354, drivetrain = ''AWD'', body_type = ''sedan'',
      reliability_score = 9, ownership_cost_score = 8,
      driving_feel_tags = [], class_tags = [], emotional_tags = [],
      fuel_economy_mpg = 23, zero_to_sixty = 4.0\<rparr>"

definition unknown_power_car :: Car where
  "unknown_power_car =
     \<lparr>car_id = ''tesla-model3-2020'', car_make = ''Tesla'', model = ''Model 3'', year = 2020,
      trim = ''Long Range'', price_range = (38000, 46000), avg_price = 42000,
      power_hp = 0, torque_lb_ft = 0, drivetrain = ''AWD'', body_type = ''sedan'',
      reliability_score = 7, ownership_cost_score = 9,
      driving_feel_tags = [''instant''], class_tags = [], emotional_tags = [''modern''],
      fuel_economy_mpg = 130, zero_to_sixty = 4.2\<rparr>"


definition small_db :: CarDatabase where
  "small_db = \<lparr>db_cars = [unknown_power_car, quick_awd_car], db_listings = []\<rparr>"

section \<open>Ranges of the factor scores\<close>

lemma score_price_range:
  "0 \<le> fst (score_price car intent) \<and> fst (score_price car intent) \<le> 100"
  by (simp add: score_price_def Let_def split: option.splits)

lemma score_performance_range:
  "0 \<le> fst (score_performance car intent) \<and> fst (score_performance car intent) \<le> 100"
  by (simp add: score_performance_def perf_tier_of_def Let_def)

lemma score_reliability_range:
  "0 \<le> reliability_score car \<Longrightarrow> reliability_score car \<le> 10 \<Longrightarrow>
   0 \<le> fst (score_reliability car intent) \<and> fst (score_reliability car intent) \<le> 100"
  by (auto simp: score_reliability_def Let_def max_def)

lemma score_drivetrain_range:
  "0 \<le> fst (score_drivetrain car intent) \<and> fst (score_drivetrain car intent) \<le> 100"
  by (simp add: score_drivetrain_def split: option.splits)

lemma score_body_style_range:
  "0 \<le> score_body_style car intent \<and> score_body_style car intent \<le> 100"
  by (simp add: score_body_style_def Let_def split: option.splits)

lemma score_emotional_range:
  "0 \<le> fst (score_emotional car intent) \<and> fst (score_emotional car intent) \<le> 100"
  by (simp add: score_emotional_def Let_def split: prod.splits)

lemma score_ownership_cost_range:
  "0 \<le> ownership_cost_score car \<Longrightarrow> ownership_cost_score car \<le> 10 \<Longrightarrow>
   0 \<le> score_ownership_cost car intent \<and> score_ownership_cost car intent \<le> 100"
  by (simp add: score_ownership_cost_def)

lemma score_reference_similarity_eq:
  "score_reference_similarity car reference =
     (if power_hp reference = 0 \<or> avg_price reference = 0 then Inl ZeroDivisionError
      else Inr (min 100 (reference_points car reference),
                if min 100 (reference_points car reference) > 70
                  then Some (VerySimilarTo (car_make reference) (model reference))
                else if min 100 (reference_points car reference) > 50
                  then Some (ComparableTo (car_make reference) (model reference))
                else None))"
proof (cases "power_hp reference = 0")
  case True
  then show ?thesis by (simp add: score_reference_similarity_def)
next
  case hp: False
  show ?thesis
  proof (cases "avg_price reference = 0")
    case True
    then show ?thesis using hp by (simp add: score_reference_similarity_def Let_def)
  next
    case False
    then show ?thesis
      using hp unfolding score_reference_similarity_def reference_points_def Let_def
      by (simp split del: if_split cong: if_cong)
  qed
qed

lemma reference_points_nonneg: "0 \<le> reference_points car reference"
  unfolding reference_points_def Let_def
  by (intro add_nonneg_nonneg) simp_all

lemma score_reference_similarity_range:
  "score_reference_similarity car reference = Inr (s, r) \<Longrightarrow> 0 \<le> s \<and> s \<le> 100"
  using reference_points_nonneg [of car reference]
  by (auto simp: score_reference_similarity_eq split: if_splits)

lemma score_reference_similarity_total:
  "power_hp reference \<noteq> 0 \<Longrightarrow> avg_price reference \<noteq> 0 \<Longrightarrow>
   \<exists>res. score_reference_similarity car reference = Inr res"
  by (simp add: score_reference_similarity_eq)

lemma score_reference_similarity_raises:
  "power_hp reference = 0 \<or> avg_price reference = 0 \<Longrightarrow>
   score_reference_similarity car reference = Inl ZeroDivisionError"
  by (simp add: score_reference_similarity_eq)

section \<open>The aggregate score\<close>


text \<open>
  C1.  Every per-factor score and the aggregate match score lie in \<open>[0,100]\<close>.  The
  factor scores do (the range lemmas above, for a reliability and an ownership rating in
  \<open>[0,10]\<close>), but the aggregate does not: with the performance, reliability and
  drivetrain overrides in force the weights sum to 1.22, and a quick, reliable, cheap AWD
  car gets the aggregate 110.3.
\<close>

theorem aggregate_score_exceeds_100:
  "score_car quick_awd_car demanding_intent None =
     Inr (110.3, [WellUnderBudget 30000, SeriouslyQuick 4, ExcellentReliabilityRecord,
                   DrivetrainAsRequested ''AWD''], [])
   \<and> \<not> (110.3 :: rat) \<le> 100"
  by code_simp

text \<open>
  C2.  The aggregate equals the weighted average of the factor scores present (the
  weighted sum divided by the total weight of the keys present).  For the same car and
  intent the code returns the weighted sum 110.3, while the weighted average is 5515/61,
  about 90.4.
\<close>

theorem aggregate_is_not_weighted_average:
  "calculate_weighted_score (factor_scores quick_awd_car demanding_intent None)
       demanding_intent False
     = 110.3
   \<and> weighted_average (factor_scores quick_awd_car demanding_intent None)
        (allocate_weights (factor_scores quick_awd_car demanding_intent None)
           demanding_intent False)
     = 5515 / 61"
  by code_simp

section \<open>The price score\<close>

text \<open>
  C4, as stated: under budget with at least 20\% headroom the price score is 100.  A car
  at 32000 against a budget of 40000 has exactly 20\% headroom and scores 95.
\<close>

theorem score_price_headroom_counterexample:
  "avg_price (quick_awd_car\<lparr>avg_price := 32000\<rparr>) \<le> 40000
   \<and> (of_int (40000 - avg_price (quick_awd_car\<lparr>avg_price := 32000\<rparr>)) :: rat) / of_int 40000
       \<ge> 0.2
   \<and> fst (score_price (quick_awd_car\<lparr>avg_price := 32000\<rparr>)
             (default_intent\<lparr>budget_max := Some 40000\<rparr>)) = 95"
  by code_simp

text \<open>
  C4, amended.  With no budget (none stated, or zero) the price score is a neutral 80 with
  no reason and no tradeoff.  With a positive budget \<open>b\<close> and average price \<open>p\<close>:
  under budget with more than 20\% headroom (\<open>b < 5 (b - p)\<close>) the score is 100; under
  budget with at most 20\% headroom, 95; both with a reason and no tradeoff.  Over budget by
  less than 10\% (\<open>10 (p - b) < b\<close>) it is 75; by less than 20\%, 50; by 20\% or more, 20;
  each with a tradeoff and no reason.
\<close>

theorem score_price_table:
  "score_price car (intent\<lparr>budget_max := None\<rparr>) = (80, None, None) \<and>
   score_price car (intent\<lparr>budget_max := Some 0\<rparr>) = (80, None, None) \<and>
   (0 < b \<longrightarrow>
      score_price car (intent\<lparr>budget_max := Some b\<rparr>) =
        (let p = avg_price car
         in if p \<le> b \<and> b < 5 * (b - p) then (100, Some (WellUnderBudget p), None)
            else if p \<le> b then (95, Some (FitsBudgetNicely b), None)
            else if 10 * (p - b) < b then (75, None, Some (SlightlyOverBudget p))
            else if 5 * (p - b) < b then (50, None, Some (AboveBudget p))
            else (20, None, Some (SignificantlyOverBudget p))))"
  by (simp add: score_price_def Let_def)

theorem score_price_table_witness:
  "(0::int) < 40000 \<and>
   score_price quick_awd_car (default_intent\<lparr>budget_max := Some 40000\<rparr>)
     = (100, Some (WellUnderBudget 30000), None)"
  using score_price_table [of quick_awd_car default_intent 40000]
  by (simp add: quick_awd_car_def)

section \<open>Totality of the scoring pass\<close>

text \<open>
  C6.  The scoring pass returns a result for every input.  It does when the reference
  car's horsepower and average price are not zero (\<open>score_reference_similarity_total\<close>);
  for a reference car with horsepower 0 the division raises and the whole pass ends in
  \<open>ZeroDivisionError\<close>.
\<close>

theorem scoring_pass_raises:
  "score_all_cars round1 small_db
       (default_intent\<lparr>reference_car := Some ''Tesla Model 3 2020''\<rparr>)
     = Inl ZeroDivisionError"
  by code_simp

section \<open>The emotional score\<close>






section \<open>The reference car among the scored cars\<close>










end
